theory Spec2Isabelle
  imports Main "HOL-Library.Word"
begin

unbundle bit_operations_syntax

section \<open>Go values\<close>

text \<open>
  A Go \<open>string\<close> is a sequence of bytes; it is modelled as an Isabelle \<open>string\<close>, whose
  characters are bytes as well. A \<open>[]byte\<close> is a list of 8-bit words. The conversions
  \<open>[]byte(s)\<close> and \<open>string(b)\<close> copy the bytes.
\<close>


type_synonym byte = "8 word"

definition bytes_of_string :: "string \<Rightarrow> byte list" where
  "bytes_of_string s = map (\<lambda>c. word_of_nat (of_char c)) s"

definition string_of_bytes :: "byte list \<Rightarrow> string" where
  "string_of_bytes bs = map (\<lambda>b. char_of (unat b)) bs"

section \<open>Standard library: crypto/aes (FIPS-197)\<close>

definition sbox :: "byte list" where
  "sbox =
    [0x63, 0x7C, 0x77, 0x7B, 0xF2, 0x6B, 0x6F, 0xC5, 0x30, 0x01, 0x67, 0x2B, 0xFE, 0xD7, 0xAB, 0x76,
     0xCA, 0x82, 0xC9, 0x7D, 0xFA, 0x59, 0x47, 0xF0, 0xAD, 0xD4, 0xA2, 0xAF, 0x9C, 0xA4, 0x72, 0xC0,
     0xB7, 0xFD, 0x93, 0x26, 0x36, 0x3F, 0xF7, 0xCC, 0x34, 0xA5, 0xE5, 0xF1, 0x71, 0xD8, 0x31, 0x15,
     0x04, 0xC7, 0x23, 0xC3, 0x18, 0x96, 0x05, 0x9A, 0x07, 0x12, 0x80, 0xE2, 0xEB, 0x27, 0xB2, 0x75,
     0x09, 0x83, 0x2C, 0x1A, 0x1B, 0x6E, 0x5A, 0xA0, 0x52, 0x3B, 0xD6, 0xB3, 0x29, 0xE3, 0x2F, 0x84,
     0x53, 0xD1, 0x00, 0xED, 0x20, 0xFC, 0xB1, 0x5B, 0x6A, 0xCB, 0xBE, 0x39, 0x4A, 0x4C, 0x58, 0xCF,
     0xD0, 0xEF, 0xAA, 0xFB, 0x43, 0x4D, 0x33, 0x85, 0x45, 0xF9, 0x02, 0x7F, 0x50, 0x3C, 0x9F, 0xA8,
     0x51, 0xA3, 0x40, 0x8F, 0x92, 0x9D, 0x38, 0xF5, 0xBC, 0xB6, 0xDA, 0x21, 0x10, 0xFF, 0xF3, 0xD2,
     0xCD, 0x0C, 0x13, 0xEC, 0x5F, 0x97, 0x44, 0x17, 0xC4, 0xA7, 0x7E, 0x3D, 0x64, 0x5D, 0x19, 0x73,
     0x60, 0x81, 0x4F, 0xDC, 0x22, 0x2A, 0x90, 0x88, 0x46, 0xEE, 0xB8, 0x14, 0xDE, 0x5E, 0x0B, 0xDB,
     0xE0, 0x32, 0x3A, 0x0A, 0x49, 0x06, 0x24, 0x5C, 0xC2, 0xD3, 0xAC, 0x62, 0x91, 0x95, 0xE4, 0x79,
     0xE7, 0xC8, 0x37, 0x6D, 0x8D, 0xD5, 0x4E, 0xA9, 0x6C, 0x56, 0xF4, 0xEA, 0x65, 0x7A, 0xAE, 0x08,
     0xBA, 0x78, 0x25, 0x2E, 0x1C, 0xA6, 0xB4, 0xC6, 0xE8, 0xDD, 0x74, 0x1F, 0x4B, 0xBD, 0x8B, 0x8A,
     0x70, 0x3E, 0xB5, 0x66, 0x48, 0x03, 0xF6, 0x0E, 0x61, 0x35, 0x57, 0xB9, 0x86, 0xC1, 0x1D, 0x9E,
     0xE1, 0xF8, 0x98, 0x11, 0x69, 0xD9, 0x8E, 0x94, 0x9B, 0x1E, 0x87, 0xE9, 0xCE, 0x55, 0x28, 0xDF,
     0x8C, 0xA1, 0x89, 0x0D, 0xBF, 0xE6, 0x42, 0x68, 0x41, 0x99, 0x2D, 0x0F, 0xB0, 0x54, 0xBB, 0x16]"

definition sub_byte :: "byte \<Rightarrow> byte" where
  "sub_byte b = sbox ! unat b"

definition xtime :: "byte \<Rightarrow> byte" where
  "xtime b = (if b AND 0x80 = 0 then push_bit 1 b else push_bit 1 b XOR 0x1B)"

definition xor_bytes :: "byte list \<Rightarrow> byte list \<Rightarrow> byte list" where
  "xor_bytes xs ys = map (\<lambda>(x, y). x XOR y) (zip xs ys)"

definition sub_bytes :: "byte list \<Rightarrow> byte list" where
  "sub_bytes st = map sub_byte st"

definition shift_rows :: "byte list \<Rightarrow> byte list" where
  "shift_rows st = map (\<lambda>i. st ! ((i mod 4) + 4 * ((i div 4 + i mod 4) mod 4))) [0..<16]"

definition mix_column :: "byte list \<Rightarrow> byte list" where
  "mix_column col =
     (case col of
        [a0, a1, a2, a3] \<Rightarrow>
          [xtime a0 XOR (xtime a1 XOR a1) XOR a2 XOR a3,
           a0 XOR xtime a1 XOR (xtime a2 XOR a2) XOR a3,
           a0 XOR a1 XOR xtime a2 XOR (xtime a3 XOR a3),
           (xtime a0 XOR a0) XOR a1 XOR a2 XOR xtime a3]
      | _ \<Rightarrow> col)"

definition mix_columns :: "byte list \<Rightarrow> byte list" where
  "mix_columns st =
     mix_column (take 4 st) @ mix_column (take 4 (drop 4 st)) @
     mix_column (take 4 (drop 8 st)) @ mix_column (take 4 (drop 12 st))"

definition rot_word :: "byte list \<Rightarrow> byte list" where
  "rot_word w = drop 1 w @ take 1 w"

fun rcon :: "nat \<Rightarrow> byte" where
  "rcon 0 = 0x8D"
| "rcon (Suc 0) = 0x01"
| "rcon (Suc n) = xtime (rcon n)"

text \<open>Key expansion (FIPS-197, section 5.2): \<open>ws\<close> holds the words computed so far,
  \<open>nk\<close> is the key length in words, \<open>n\<close> the number of words still to produce.\<close>

fun expand_words :: "nat \<Rightarrow> nat \<Rightarrow> byte list list \<Rightarrow> byte list list" where
  "expand_words nk 0 ws = ws"
| "expand_words nk (Suc n) ws =
     (let i = length ws;
          prev = ws ! (i - 1);
          temp = (if i mod nk = 0 then xor_bytes (map sub_byte (rot_word prev)) [rcon (i div nk), 0, 0, 0]
                  else if 6 < nk \<and> i mod nk = 4 then map sub_byte prev
                  else prev)
      in expand_words nk n (ws @ [xor_bytes (ws ! (i - nk)) temp]))"

fun chunks :: "nat \<Rightarrow> 'a list \<Rightarrow> 'a list list" where
  "chunks n [] = []"
| "chunks n (x # xs) = take n (x # xs) # chunks n (drop (n - 1) xs)"

definition key_expansion :: "byte list \<Rightarrow> byte list list" where
  "key_expansion key =
     (let nk = length key div 4;
          ws = expand_words nk (4 * (nk + 7) - nk) (chunks 4 key)
      in chunks 16 (concat ws))"

fun aes_rounds :: "byte list list \<Rightarrow> byte list \<Rightarrow> byte list" where
  "aes_rounds [] st = st"
| "aes_rounds [k] st = xor_bytes (shift_rows (sub_bytes st)) k"
| "aes_rounds (k # ks) st = aes_rounds ks (xor_bytes (mix_columns (shift_rows (sub_bytes st))) k)"

definition aes_encrypt_block :: "byte list \<Rightarrow> byte list \<Rightarrow> byte list" where
  "aes_encrypt_block key blk =
     (case key_expansion key of
        [] \<Rightarrow> blk
      | k0 # ks \<Rightarrow> aes_rounds ks (xor_bytes blk k0))"



section \<open>crypto/cipher: CFB mode\<close>

fun cfb_encrypt :: "(byte list \<Rightarrow> byte list) \<Rightarrow> byte list \<Rightarrow> byte list \<Rightarrow> byte list" where
  "cfb_encrypt enc prev [] = []"
| "cfb_encrypt enc prev (p # ps) =
     (let ct = xor_bytes (take 16 (p # ps)) (enc prev)
      in ct @ cfb_encrypt enc ct (drop 15 ps))"

fun cfb_decrypt :: "(byte list \<Rightarrow> byte list) \<Rightarrow> byte list \<Rightarrow> byte list \<Rightarrow> byte list" where
  "cfb_decrypt enc prev [] = []"
| "cfb_decrypt enc prev (c # cs) =
     (let blk = take 16 (c # cs)
      in xor_bytes blk (enc prev) @ cfb_decrypt enc blk (drop 15 cs))"

section \<open>encoding/base64 (StdEncoding)\<close>

definition encodeStd :: "string" where
  "encodeStd = ''ABCDEFGHIJKLMNOPQRSTUVWXYZabcdefghijklmnopqrstuvwxyz0123456789+/''"

definition b64_char :: "nat \<Rightarrow> char" where
  "b64_char n = encodeStd ! n"

fun index_of :: "'a \<Rightarrow> 'a list \<Rightarrow> nat option" where
  "index_of x [] = None"
| "index_of x (y # ys) = (if x = y then Some 0 else map_option Suc (index_of x ys))"

definition b64_index :: "char \<Rightarrow> nat option" where
  "b64_index c = index_of c encodeStd"

fun EncodeToString :: "byte list \<Rightarrow> string" where
  "EncodeToString [] = []"
| "EncodeToString [a] =
     [b64_char (unat a div 4), b64_char (unat a mod 4 * 16), CHR ''='', CHR ''='']"
| "EncodeToString [a, b] =
     [b64_char (unat a div 4), b64_char (unat a mod 4 * 16 + unat b div 16),
      b64_char (unat b mod 16 * 4), CHR ''='']"
| "EncodeToString (a # b # c # rest) =
     [b64_char (unat a div 4), b64_char (unat a mod 4 * 16 + unat b div 16),
      b64_char (unat b mod 16 * 4 + unat c div 64), b64_char (unat c mod 64)] @ EncodeToString rest"

fun decode_quanta :: "string \<Rightarrow> byte list option" where
  "decode_quanta [] = Some []"
| "decode_quanta (a # b # c # d # rest) =
     (case (b64_index a, b64_index b) of
        (Some x, Some y) \<Rightarrow>
          (if c = CHR ''='' then
             (if d = CHR ''='' \<and> rest = [] then Some [word_of_nat (x * 4 + y div 16)] else None)
           else
             (case b64_index c of
                None \<Rightarrow> None
              | Some z \<Rightarrow>
                  (if d = CHR ''='' then
                     (if rest = [] then
                        Some [word_of_nat (x * 4 + y div 16), word_of_nat (y mod 16 * 16 + z div 4)]
                      else None)
                   else
                     (case b64_index d of
                        None \<Rightarrow> None
                      | Some w \<Rightarrow>
                          map_option
                            (\<lambda>r. [word_of_nat (x * 4 + y div 16), word_of_nat (y mod 16 * 16 + z div 4),
                                  word_of_nat (z mod 4 * 64 + w)] @ r)
                            (decode_quanta rest)))))
      | _ \<Rightarrow> None)"
| "decode_quanta _ = None"

definition DecodeString :: "string \<Rightarrow> byte list option" where
  "DecodeString s = decode_quanta (filter (\<lambda>c. c \<noteq> CHR 0x0D \<and> c \<noteq> CHR 0x0A) s)"



section \<open>crypto/sha256\<close>

type_synonym word32 = "32 word"

definition sha256_K :: "word32 list" where
  "sha256_K =
    [0x428A2F98, 0x71374491, 0xB5C0FBCF, 0xE9B5DBA5, 0x3956C25B, 0x59F111F1, 0x923F82A4, 0xAB1C5ED5,
     0xD807AA98, 0x12835B01, 0x243185BE, 0x550C7DC3, 0x72BE5D74, 0x80DEB1FE, 0x9BDC06A7, 0xC19BF174,
     0xE49B69C1, 0xEFBE4786, 0x0FC19DC6, 0x240CA1CC, 0x2DE92C6F, 0x4A7484AA, 0x5CB0A9DC, 0x76F988DA,
     0x983E5152, 0xA831C66D, 0xB00327C8, 0xBF597FC7, 0xC6E00BF3, 0xD5A79147, 0x06CA6351, 0x14292967,
     0x27B70A85, 0x2E1B2138, 0x4D2C6DFC, 0x53380D13, 0x650A7354, 0x766A0ABB, 0x81C2C92E, 0x92722C85,
     0xA2BFE8A1, 0xA81A664B, 0xC24B8B70, 0xC76C51A3, 0xD192E819, 0xD6990624, 0xF40E3585, 0x106AA070,
     0x19A4C116, 0x1E376C08, 0x2748774C, 0x34B0BCB5, 0x391C0CB3, 0x4ED8AA4A, 0x5B9CCA4F, 0x682E6FF3,
     0x748F82EE, 0x78A5636F, 0x84C87814, 0x8CC70208, 0x90BEFFFA, 0xA4506CEB, 0xBEF9A3F7, 0xC67178F2]"

definition sha256_init :: "word32 list" where
  "sha256_init =
    [0x6A09E667, 0xBB67AE85, 0x3C6EF372, 0xA54FF53A, 0x510E527F, 0x9B05688C, 0x1F83D9AB, 0x5BE0CD19]"

definition rotr :: "nat \<Rightarrow> word32 \<Rightarrow> word32" where
  "rotr n x = drop_bit n x OR push_bit (32 - n) x"

definition be_bytes32 :: "word32 \<Rightarrow> byte list" where
  "be_bytes32 w = map (\<lambda>i. ucast (drop_bit (8 * (3 - i)) w)) [0..<4]"

definition be_bytes64 :: "64 word \<Rightarrow> byte list" where
  "be_bytes64 w = map (\<lambda>i. ucast (drop_bit (8 * (7 - i)) w)) [0..<8]"

definition be_word :: "byte list \<Rightarrow> word32" where
  "be_word bs = foldl (\<lambda>acc b. push_bit 8 acc OR ucast b) 0 bs"

definition sha256_pad :: "byte list \<Rightarrow> byte list" where
  "sha256_pad msg =
     msg @ [0x80] @ replicate ((119 - length msg mod 64) mod 64) 0 @ be_bytes64 (word_of_nat (8 * length msg))"

fun schedule :: "nat \<Rightarrow> word32 list \<Rightarrow> word32 list" where
  "schedule 0 w = w"
| "schedule (Suc n) w =
     (let t = length w;
          w15 = w ! (t - 15); w2 = w ! (t - 2);
          s0 = rotr 7 w15 XOR rotr 18 w15 XOR drop_bit 3 w15;
          s1 = rotr 17 w2 XOR rotr 19 w2 XOR drop_bit 10 w2
      in schedule n (w @ [w ! (t - 16) + s0 + w ! (t - 7) + s1]))"

fun compress_round :: "word32 list \<Rightarrow> word32 \<times> word32 \<Rightarrow> word32 list" where
  "compress_round [a, b, c, d, e, f, g, h] (k, w) =
     (let S1 = rotr 6 e XOR rotr 11 e XOR rotr 25 e;
          ch = (e AND f) XOR (NOT e AND g);
          t1 = h + S1 + ch + k + w;
          S0 = rotr 2 a XOR rotr 13 a XOR rotr 22 a;
          maj = (a AND b) XOR (a AND c) XOR (b AND c);
          t2 = S0 + maj
      in [t1 + t2, a, b, c, d + t1, e, f, g])"
| "compress_round st _ = st"

definition sha256_block :: "word32 list \<Rightarrow> byte list \<Rightarrow> word32 list" where
  "sha256_block hs blk =
     (let w = schedule 48 (map be_word (chunks 4 blk));
          st = foldl compress_round hs (zip sha256_K w)
      in map (\<lambda>(x, y). x + y) (zip hs st))"

definition Sum256 :: "byte list \<Rightarrow> byte list" where
  "Sum256 msg =
     concat (map (\<lambda>h. be_bytes32 h) (foldl sha256_block sha256_init (chunks 64 (sha256_pad msg))))"


section \<open>Errors and replies\<close>

text \<open>
  Go's \<open>error\<close> values that the modelled code can produce. \<open>CorruptInputError\<close> is
  encoding/base64's error (its byte offset is left out), \<open>KeySizeError\<close> is crypto/aes's,
  \<open>ErrUnexpectedEOF\<close> is io.ReadFull's, \<open>ErrNoDocuments\<close> and \<open>ErrDriver\<close> are the
  data store's (no matching document; any other failure of the driver).
\<close>

datatype error =
    errors_New string
  | CorruptInputError
  | KeySizeError nat
  | ErrUnexpectedEOF
  | ErrNoDocuments
  | ErrDriver
  | ErrBcrypt
  | ErrJWT string

text \<open>
  What a handler writes to its \<open>http.ResponseWriter\<close>: \<open>http.Error(w, msg, code)\<close>, the
  JSON object \<open>{"message": m}\<close>, or the JSON object \<open>{"token": t, "role": r}\<close> (both with
  status 200).
\<close>

datatype reply =
    http_Error string nat
  | Message string
  | TokenReply string string

fun status :: "reply \<Rightarrow> nat" where
  "status (http_Error msg code) = code"
| "status (Message m) = 200"
| "status (TokenReply t r) = 200"

definition StatusBadRequest :: nat where "StatusBadRequest = 400"
definition StatusUnauthorized :: nat where "StatusUnauthorized = 401"
definition StatusForbidden :: nat where "StatusForbidden = 403"
definition StatusNotFound :: nat where "StatusNotFound = 404"
definition StatusConflict :: nat where "StatusConflict = 409"
definition StatusInternalServerError :: nat where "StatusInternalServerError = 500"

section \<open>utils/encryption.go\<close>

definition NewCipher :: "byte list \<Rightarrow> error + (byte list \<Rightarrow> byte list)" where
  "NewCipher key =
     (if length key = 16 \<or> length key = 24 \<or> length key = 32 then Inr (aes_encrypt_block key)
      else Inl (KeySizeError (length key)))"

text \<open>\<open>io.ReadFull(rand.Reader, buf)\<close>: the random source is the list of bytes it will
  deliver; reading fewer than \<open>n\<close> bytes is an error.\<close>

definition ReadFull :: "byte list \<Rightarrow> nat \<Rightarrow> error + byte list" where
  "ReadFull rnd n = (if length rnd < n then Inl ErrUnexpectedEOF else Inr (take n rnd))"

definition BlockSize :: nat where
  "BlockSize = 16"

text \<open>\<open>Encrypt(plainText, key)\<close>, with the random source as a third argument. The Go
  result \<open>(string, error)\<close> is the pair of the string and the optional error.\<close>

definition Encrypt :: "string \<Rightarrow> string \<Rightarrow> byte list \<Rightarrow> string \<times> error option" where
  "Encrypt plainText key rnd =
     (if length key \<noteq> 32 then ('''', Some (errors_New ''encryption key must be 32 bytes''))
      else
        (case NewCipher (bytes_of_string key) of
           Inl err \<Rightarrow> ('''', Some err)
         | Inr block \<Rightarrow>
             (case ReadFull rnd BlockSize of
                Inl err \<Rightarrow> ('''', Some err)
              | Inr iv \<Rightarrow>
                  (EncodeToString (iv @ cfb_encrypt block iv (bytes_of_string plainText)), None))))"

definition Decrypt :: "string \<Rightarrow> string \<Rightarrow> string \<times> error option" where
  "Decrypt encryptedText key =
     (if length key \<noteq> 32 then ('''', Some (errors_New ''encryption key must be 32 bytes''))
      else
        (case DecodeString encryptedText of
           None \<Rightarrow> ('''', Some CorruptInputError)
         | Some ciphertext \<Rightarrow>
             (case NewCipher (bytes_of_string key) of
                Inl err \<Rightarrow> ('''', Some err)
              | Inr block \<Rightarrow>
                  (if length ciphertext < BlockSize then ('''', Some (errors_New ''ciphertext too short''))
                   else
                     (string_of_bytes
                        (cfb_decrypt block (take BlockSize ciphertext) (drop BlockSize ciphertext)),
                      None)))))"

definition HashEmail :: "string \<Rightarrow> string" where
  "HashEmail email = EncodeToString (Sum256 (bytes_of_string email))"

section \<open>Configuration, user records and the users collection\<close>

record Config =
  MongoURI :: string
  JWTSecret :: string
  EncryptionKey :: string
  ServiceName :: string
  ServicePort :: string

text \<open>\<open>models.User\<close>, with the fields the handlers set. The identifier is kept as its
  hexadecimal text, the timestamps as Unix seconds.\<close>

record User =
  ID :: string
  EmailHash :: string
  Email :: string
  Password :: string
  Role :: string
  CreatedAt :: int
  UpdatedAt :: int

text \<open>The \<open>users\<close> collection: its documents in insertion order, and whether the driver
  reaches the server (when it does not, every operation returns a driver error).\<close>

record Collection =
  docs :: "User list"
  reachable :: bool

definition FindOne_email_hash :: "Collection \<Rightarrow> string \<Rightarrow> error + User" where
  "FindOne_email_hash c h =
     (if \<not> reachable c then Inl ErrDriver
      else (case find (\<lambda>u. EmailHash u = h) (docs c) of
              None \<Rightarrow> Inl ErrNoDocuments
            | Some u \<Rightarrow> Inr u))"

definition InsertOne :: "Collection \<Rightarrow> User \<Rightarrow> error + Collection" where
  "InsertOne c u =
     (if \<not> reachable c \<or> ID u \<in> set (map ID (docs c)) then Inl ErrDriver
      else Inr (c\<lparr>docs := docs c @ [u]\<rparr>))"

text \<open>\<open>CountDocuments\<close> with the filter \<open>{email_hash: h, _id: {$ne: uid}}\<close>.\<close>

definition CountDocuments_email_hash_ne :: "Collection \<Rightarrow> string \<Rightarrow> string \<Rightarrow> error + nat" where
  "CountDocuments_email_hash_ne c h uid =
     (if \<not> reachable c then Inl ErrDriver
      else Inr (length (filter (\<lambda>u. EmailHash u = h \<and> ID u \<noteq> uid) (docs c))))"

text \<open>\<open>UpdateOne\<close> with the filter \<open>{_id: uid}\<close>: the patch is applied to the first
  matching document; the result is the matched count and the collection.\<close>

fun update_first :: "('a \<Rightarrow> bool) \<Rightarrow> ('a \<Rightarrow> 'a) \<Rightarrow> 'a list \<Rightarrow> 'a list" where
  "update_first p f [] = []"
| "update_first p f (x # xs) = (if p x then f x # xs else x # update_first p f xs)"

definition UpdateOne_id :: "Collection \<Rightarrow> string \<Rightarrow> (User \<Rightarrow> User) \<Rightarrow> error + (nat \<times> Collection)" where
  "UpdateOne_id c uid patch =
     (if \<not> reachable c then Inl ErrDriver
      else Inr (if \<exists>u \<in> set (docs c). ID u = uid then 1 else 0,
                c\<lparr>docs := update_first (\<lambda>u. ID u = uid) patch (docs c)\<rparr>))"

section \<open>The environment of a request\<close>

text \<open>
  Values of Go's \<open>interface{}\<close> as they occur in token claims and in the request
  context: a string, a number, a boolean, or a claims map (\<open>jwt.MapClaims\<close>). A missing
  key and \<open>nil\<close> are \<open>None\<close>.
\<close>

datatype any =
    AString string
  | ANumber int
  | ABool bool
  | AMapClaims "string \<Rightarrow> any option"

type_synonym MapClaims = "string \<Rightarrow> any option"

text \<open>
  What a handler takes from outside the repository during one request: the bcrypt
  package (\<open>GenerateFromPassword\<close> with its salt already drawn, \<open>CompareHashAndPassword\<close>
  returning \<open>None\<close> for \<open>nil\<close>), the bytes \<open>crypto/rand\<close> delivers, the clock in Unix
  seconds, the fresh object identifier, and the jwt package: \<open>SignedString\<close> of an HS256
  token with the given claims and key, and \<open>Parse\<close> of a token string with the given key
  at the given time, returning the claims when \<open>err == nil\<close> and \<open>token.Valid\<close>.
\<close>

record Env =
  bcrypt_GenerateFromPassword :: "string \<Rightarrow> error + string"
  bcrypt_CompareHashAndPassword :: "string \<Rightarrow> string \<Rightarrow> error option"
  rand_Reader :: "byte list"
  time_Now :: int
  primitive_NewObjectID :: string
  jwt_SignedString :: "MapClaims \<Rightarrow> string \<Rightarrow> error + string"
  jwt_Parse :: "string \<Rightarrow> string \<Rightarrow> int \<Rightarrow> error + MapClaims"

section \<open>auth-service handlers: Register, Login, AdminRegister, AdminLogin\<close>

record RegisterRequest =
  rr_Email :: string
  rr_Password :: string
  rr_Role :: string

record LoginRequest =
  lr_Email :: string
  lr_Password :: string

record AdminRegisterRequest =
  ar_Email :: string
  ar_Password :: string

record AdminLoginRequest =
  al_Email :: string
  al_Password :: string

text \<open>The request body is \<open>None\<close> when \<open>json.NewDecoder(r.Body).Decode(&req)\<close> fails.
  A handler that writes to the collection returns the collection as well.\<close>

definition Register :: "Env \<Rightarrow> Config \<Rightarrow> RegisterRequest option \<Rightarrow> Collection \<Rightarrow> reply \<times> Collection" where
  "Register env cfg body collection =
     (case body of
        None \<Rightarrow> (http_Error ''Invalid request payload'' StatusBadRequest, collection)
      | Some req \<Rightarrow>
          (case FindOne_email_hash collection (rr_Email req) of
             Inr existingUser \<Rightarrow> (http_Error ''User already exists'' StatusConflict, collection)
           | Inl err \<Rightarrow>
               (if err \<noteq> ErrNoDocuments then (http_Error ''Database error'' StatusInternalServerError, collection)
                else
                  (case bcrypt_GenerateFromPassword env (rr_Password req) of
                     Inl e \<Rightarrow> (http_Error ''Failed to hash password'' StatusInternalServerError, collection)
                   | Inr hashedPassword \<Rightarrow>
                       (case Encrypt (rr_Email req) (EncryptionKey cfg) (rand_Reader env) of
                          (encryptedEmail, Some e) \<Rightarrow>
                            (http_Error ''Failed to encrypt data'' StatusInternalServerError, collection)
                        | (encryptedEmail, None) \<Rightarrow>
                            (let emailHash = rr_Email req;
                                 role = (if rr_Role req = ''admin'' then ''admin'' else ''user'');
                                 now = time_Now env;
                                 user = \<lparr>ID = primitive_NewObjectID env, EmailHash = emailHash,
                                         Email = encryptedEmail, Password = hashedPassword,
                                         Role = role, CreatedAt = now, UpdatedAt = now\<rparr>
                             in (case InsertOne collection user of
                                   Inl e \<Rightarrow>
                                     (http_Error ''Failed to create user'' StatusInternalServerError, collection)
                                 | Inr collection' \<Rightarrow>
                                     (Message ''User registered successfully'', collection'))))))))"

definition AdminRegister :: "Env \<Rightarrow> Config \<Rightarrow> AdminRegisterRequest option \<Rightarrow> Collection \<Rightarrow> reply \<times> Collection" where
  "AdminRegister env cfg body collection =
     (case body of
        None \<Rightarrow> (http_Error ''Invalid request payload'' StatusBadRequest, collection)
      | Some req \<Rightarrow>
          (case FindOne_email_hash collection (ar_Email req) of
             Inr existingUser \<Rightarrow> (http_Error ''Admin already exists'' StatusConflict, collection)
           | Inl err \<Rightarrow>
               (if err \<noteq> ErrNoDocuments then (http_Error ''Database error'' StatusInternalServerError, collection)
                else
                  (case bcrypt_GenerateFromPassword env (ar_Password req) of
                     Inl e \<Rightarrow> (http_Error ''Failed to hash password'' StatusInternalServerError, collection)
                   | Inr hashedPassword \<Rightarrow>
                       (case Encrypt (ar_Email req) (EncryptionKey cfg) (rand_Reader env) of
                          (encryptedEmail, Some e) \<Rightarrow>
                            (http_Error ''Failed to encrypt data'' StatusInternalServerError, collection)
                        | (encryptedEmail, None) \<Rightarrow>
                            (let emailHash = ar_Email req;
                                 now = time_Now env;
                                 user = \<lparr>ID = primitive_NewObjectID env, EmailHash = emailHash,
                                         Email = encryptedEmail, Password = hashedPassword,
                                         Role = ''admin'', CreatedAt = now, UpdatedAt = now\<rparr>
                             in (case InsertOne collection user of
                                   Inl e \<Rightarrow>
                                     (http_Error ''Failed to create admin'' StatusInternalServerError, collection)
                                 | Inr collection' \<Rightarrow>
                                     (Message ''Admin registered successfully'', collection'))))))))"

text \<open>The claims of the token issued at login: \<open>time.Now().Add(time.Hour * 24).Unix()\<close> is
  the clock plus 86400 seconds.\<close>

definition login_claims :: "Env \<Rightarrow> User \<Rightarrow> string \<Rightarrow> MapClaims" where
  "login_claims env user decryptedEmail =
     [''userID'' \<mapsto> AString (ID user),
      ''email'' \<mapsto> AString decryptedEmail,
      ''role'' \<mapsto> AString (Role user),
      ''exp'' \<mapsto> ANumber (time_Now env + 3600 * 24)]"

definition issue_token :: "Env \<Rightarrow> Config \<Rightarrow> User \<Rightarrow> reply" where
  "issue_token env cfg user =
     (case Decrypt (Email user) (EncryptionKey cfg) of
        (decryptedEmail, Some e) \<Rightarrow> http_Error ''Failed to decrypt data'' StatusInternalServerError
      | (decryptedEmail, None) \<Rightarrow>
          (case jwt_SignedString env (login_claims env user decryptedEmail) (JWTSecret cfg) of
             Inl e \<Rightarrow> http_Error ''Failed to generate token'' StatusInternalServerError
           | Inr tokenString \<Rightarrow> TokenReply tokenString (Role user)))"

definition Login :: "Env \<Rightarrow> Config \<Rightarrow> LoginRequest option \<Rightarrow> Collection \<Rightarrow> reply" where
  "Login env cfg body collection =
     (case body of
        None \<Rightarrow> http_Error ''Invalid request payload'' StatusBadRequest
      | Some req \<Rightarrow>
          (case FindOne_email_hash collection (lr_Email req) of
             Inl err \<Rightarrow>
               (if err = ErrNoDocuments then http_Error ''Invalid credentials'' StatusUnauthorized
                else http_Error ''Database error'' StatusInternalServerError)
           | Inr user \<Rightarrow>
               (case bcrypt_CompareHashAndPassword env (Password user) (lr_Password req) of
                  Some e \<Rightarrow> http_Error ''Invalid credentials'' StatusUnauthorized
                | None \<Rightarrow> issue_token env cfg user)))"

definition AdminLogin :: "Env \<Rightarrow> Config \<Rightarrow> AdminLoginRequest option \<Rightarrow> Collection \<Rightarrow> reply" where
  "AdminLogin env cfg body collection =
     (case body of
        None \<Rightarrow> http_Error ''Invalid request payload'' StatusBadRequest
      | Some req \<Rightarrow>
          (case FindOne_email_hash collection (al_Email req) of
             Inl err \<Rightarrow>
               (if err = ErrNoDocuments then http_Error ''Invalid credentials'' StatusUnauthorized
                else http_Error ''Database error'' StatusInternalServerError)
           | Inr user \<Rightarrow>
               (if Role user \<noteq> ''admin'' then http_Error ''Access denied: Admin only'' StatusForbidden
                else
                  (case bcrypt_CompareHashAndPassword env (Password user) (al_Password req) of
                     Some e \<Rightarrow> http_Error ''Invalid credentials'' StatusUnauthorized
                   | None \<Rightarrow> issue_token env cfg user))))"

section \<open>Middleware: JWTAuthMiddleware and AdminOnlyMiddleware\<close>

text \<open>
  A request as the access-control gate reads it: the \<open>Authorization\<close> header (the empty
  string when it is absent, as \<open>Header.Get\<close> returns) and the values of the request
  context. A handler either writes a reply or panics; it may change a state \<open>'s\<close> (the
  collection), which a rejecting middleware leaves as it is.
\<close>

record Request =
  Authorization :: string
  ctx :: "string \<Rightarrow> any option"

datatype outcome = Replied reply | Panicked

type_synonym 's handler = "Request \<Rightarrow> 's \<Rightarrow> outcome \<times> 's"

definition has_prefix :: "string \<Rightarrow> string \<Rightarrow> bool" where
  "has_prefix s p = (take (length p) s = p)"

definition TrimPrefix :: "string \<Rightarrow> string \<Rightarrow> string" where
  "TrimPrefix s p = (if has_prefix s p then drop (length p) s else s)"

text \<open>\<open>middleware/auth.go\<close> of the monolith: the claims go into the context under
  \<open>"claims"\<close>.\<close>

definition JWTAuthMiddleware :: "Env \<Rightarrow> Config \<Rightarrow> 's handler \<Rightarrow> 's handler" where
  "JWTAuthMiddleware env cfg next r s =
     (let authHeader = Authorization r in
      if authHeader = '''' then
        (Replied (http_Error ''Authorization header required'' StatusUnauthorized), s)
      else
        (let tokenString = TrimPrefix authHeader ''Bearer '' in
         case jwt_Parse env tokenString (JWTSecret cfg) (time_Now env) of
           Inl err \<Rightarrow> (Replied (http_Error ''Invalid token'' StatusUnauthorized), s)
         | Inr claims \<Rightarrow> next (r\<lparr>ctx := (ctx r)(''claims'' := Some (AMapClaims claims))\<rparr>) s))"

text \<open>\<open>microservices/user-service/middleware/auth.go\<close>: the claims \<open>userID\<close>, \<open>email\<close>
  and \<open>role\<close> and the encryption key go into the context. The admin service installs its
  gate of the same name before \<open>AdminOnlyMiddleware\<close>.\<close>

definition svc_JWTAuthMiddleware :: "Env \<Rightarrow> Config \<Rightarrow> 's handler \<Rightarrow> 's handler" where
  "svc_JWTAuthMiddleware env cfg next r s =
     (let authHeader = Authorization r in
      if authHeader = '''' then
        (Replied (http_Error ''Authorization header required'' StatusUnauthorized), s)
      else
        (let tokenString = TrimPrefix authHeader ''Bearer '' in
         case jwt_Parse env tokenString (JWTSecret cfg) (time_Now env) of
           Inl err \<Rightarrow> (Replied (http_Error ''Invalid token'' StatusUnauthorized), s)
         | Inr claims \<Rightarrow>
             next (r\<lparr>ctx := (ctx r)(''userID'' := claims ''userID'', ''email'' := claims ''email'',
                                   ''role'' := claims ''role'',
                                   ''encryptionKey'' := Some (AString (EncryptionKey cfg)))\<rparr>) s))"




section \<open>Monolith handlers: UpdateUserProfile\<close>

text \<open>
  \<open>primitive.ObjectIDFromHex\<close>: the text must be 24 hexadecimal digits; the identifier
  is kept as lower-case hexadecimal text, as \<open>Hex()\<close> prints it.
\<close>

definition is_hex_digit :: "char \<Rightarrow> bool" where
  "is_hex_digit c = (c \<in> set ''0123456789abcdefABCDEF'')"

definition lower_hex :: "char \<Rightarrow> char" where
  "lower_hex c = (if c \<in> set ''ABCDEF'' then char_of (of_char c + (32 :: nat)) else c)"

definition ObjectIDFromHex :: "string \<Rightarrow> error + string" where
  "ObjectIDFromHex s =
     (if length s = 24 \<and> list_all is_hex_digit s then Inr (map lower_hex s)
      else Inl (errors_New ''the provided hex string is not a valid ObjectID''))"

record UpdateProfileRequest =
  up_Email :: string
  up_Password :: string

text \<open>
  \<open>UpdateUserProfile\<close> of the monolith (\<open>handlers\<close> package of \<open>golang-backend\<close>). The
  configuration that \<open>config.Load()\<close> returns is the argument \<open>cfg\<close>. The type assertions
  on the context value and on the \<open>userID\<close> claim panic when they fail. The replies carry
  the text of the \<open>error\<close> field of the JSON object the handler writes. The lookup key is
  \<open>utils.HashEmail(req.Email)\<close>.
\<close>

text \<open>The block \<open>if req.Email != ""\<close>: an early reply, or the fields to set.\<close>

definition update_email ::
  "Env \<Rightarrow> Config \<Rightarrow> UpdateProfileRequest \<Rightarrow> string \<Rightarrow> Collection \<Rightarrow> reply + (User \<Rightarrow> User)" where
  "update_email env cfg req userID collection =
     (if up_Email req \<noteq> '''' then
        (let emailHash = HashEmail (up_Email req) in
         case Encrypt (up_Email req) (EncryptionKey cfg) (rand_Reader env) of
           (encryptedEmail, Some err) \<Rightarrow>
             Inl (http_Error ''Failed to encrypt email'' StatusInternalServerError)
         | (encryptedEmail, None) \<Rightarrow>
             (case CountDocuments_email_hash_ne collection emailHash userID of
                Inl err \<Rightarrow> Inl (http_Error ''Failed to check email availability'' StatusInternalServerError)
              | Inr count \<Rightarrow>
                  (if 0 < count then Inl (http_Error ''Email already in use'' StatusConflict)
                   else Inr (\<lambda>u. u\<lparr>Email := encryptedEmail, EmailHash := emailHash\<rparr>))))
      else Inr (\<lambda>u. u))"

text \<open>The block \<open>if req.Password != ""\<close>.\<close>

definition update_password :: "Env \<Rightarrow> UpdateProfileRequest \<Rightarrow> reply + (User \<Rightarrow> User)" where
  "update_password env req =
     (if up_Password req \<noteq> '''' then
        (case bcrypt_GenerateFromPassword env (up_Password req) of
           Inl err \<Rightarrow> Inl (http_Error ''Failed to hash password'' StatusInternalServerError)
         | Inr hashedPassword \<Rightarrow> Inr (\<lambda>u. u\<lparr>Password := hashedPassword\<rparr>))
      else Inr (\<lambda>u. u))"

definition apply_update ::
  "Env \<Rightarrow> Config \<Rightarrow> string \<Rightarrow> UpdateProfileRequest \<Rightarrow> Collection \<Rightarrow> outcome \<times> Collection" where
  "apply_update env cfg userID req collection =
     (case update_email env cfg req userID collection of
        Inl reply \<Rightarrow> (Replied reply, collection)
      | Inr set_email \<Rightarrow>
          (case update_password env req of
             Inl reply \<Rightarrow> (Replied reply, collection)
           | Inr set_password \<Rightarrow>
               (case UpdateOne_id collection userID
                       (\<lambda>u. set_password (set_email (u\<lparr>UpdatedAt := time_Now env\<rparr>))) of
                  Inl err \<Rightarrow>
                    (Replied (http_Error ''Failed to update profile'' StatusInternalServerError), collection)
                | Inr (matched, collection') \<Rightarrow>
                    (if matched = 0 then (Replied (http_Error ''User not found'' StatusNotFound), collection')
                     else (Replied (Message ''Profile updated successfully''), collection')))))"

definition UpdateUserProfile ::
  "Env \<Rightarrow> Config \<Rightarrow> Request \<Rightarrow> UpdateProfileRequest option \<Rightarrow> Collection \<Rightarrow> outcome \<times> Collection" where
  "UpdateUserProfile env cfg r body collection =
     (case ctx r ''claims'' of
        Some (AMapClaims claims) \<Rightarrow>
          (case claims ''userID'' of
             Some (AString userIDStr) \<Rightarrow>
               (case ObjectIDFromHex userIDStr of
                  Inl err \<Rightarrow> (Replied (http_Error ''Invalid user ID'' StatusBadRequest), collection)
                | Inr userID \<Rightarrow>
                    (case body of
                       None \<Rightarrow> (Replied (http_Error ''Invalid request body'' StatusBadRequest), collection)
                     | Some req \<Rightarrow> apply_update env cfg userID req collection))
           | _ \<Rightarrow> (Panicked, collection))
      | _ \<Rightarrow> (Panicked, collection))"

section \<open>An example deployment\<close>

text \<open>
  Concrete values for the instances below: the default configuration of the shared
  \<open>config.Load\<close>, one registered user, and an environment whose bcrypt and jwt packages are
  small stand-ins (the hash of a password is the password behind a fixed prefix; two token
  strings are known to the parser, one carrying the claims of a login of the registered
  user and one carrying a numeric \<open>role\<close> claim).
\<close>

definition claims0 :: MapClaims where
  "claims0 =
     [''userID'' \<mapsto> AString ''507f1f77bcf86cd799439011'',
      ''email'' \<mapsto> AString ''a@x.com'',
      ''role'' \<mapsto> AString ''user'',
      ''exp'' \<mapsto> ANumber (1700000000 + 3600 * 24)]"

definition claims_number :: MapClaims where
  "claims_number = [''userID'' \<mapsto> AString ''507f1f77bcf86cd799439011'', ''role'' \<mapsto> ANumber 1]"

definition env0 :: Env where
  "env0 =
     \<lparr>bcrypt_GenerateFromPassword =
        (\<lambda>p. if 72 < length p then Inl ErrBcrypt else Inr (''$2a$10$'' @ p)),
      bcrypt_CompareHashAndPassword =
        (\<lambda>h p. if h = ''$2a$10$'' @ p then None else Some ErrBcrypt),
      rand_Reader = [0, 1, 2, 3, 4, 5, 6, 7, 8, 9, 10, 11, 12, 13, 14, 15],
      time_Now = 1700000000,
      primitive_NewObjectID = ''507f1f77bcf86cd799439011'',
      jwt_SignedString =
        (\<lambda>c k. if k = ''your-secret-key'' \<and> c = claims0 then Inr ''eyJ.user.sig''
               else Inl (ErrJWT ''key is of invalid type'')),
      jwt_Parse =
        (\<lambda>t k n. if k = ''your-secret-key'' \<and> t = ''eyJ.user.sig'' \<and> n < 1700086400 then Inr claims0
                 else if k = ''your-secret-key'' \<and> t = ''eyJ.number.sig'' then Inr claims_number
                 else Inl (ErrJWT ''token is invalid''))\<rparr>"

definition cfg0 :: Config where
  "cfg0 =
     \<lparr>MongoURI = ''mongodb://localhost:27017'', JWTSecret = ''your-secret-key'',
      EncryptionKey = ''your-32-byte-encryption-key-here'', ServiceName = ''auth-service'',
      ServicePort = ''8081''\<rparr>"

definition empty_users :: Collection where
  "empty_users = \<lparr>docs = [], reachable = True\<rparr>"

definition user0 :: User where
  "user0 =
     \<lparr>ID = ''507f1f77bcf86cd799439011'', EmailHash = ''a@x.com'',
      Email = fst (Encrypt ''a@x.com'' ''your-32-byte-encryption-key-here''
                     [0, 1, 2, 3, 4, 5, 6, 7, 8, 9, 10, 11, 12, 13, 14, 15]),
      Password = ''$2a$10$pw123456'', Role = ''user'',
      CreatedAt = 1700000000, UpdatedAt = 1700000000\<rparr>"

definition users0 :: Collection where
  "users0 = \<lparr>docs = [user0], reachable = True\<rparr>"

definition ok_handler :: "unit handler" where
  "ok_handler r s = (Replied (Message ''ok''), s)"

section \<open>Basic facts about the cipher interface and the store\<close>

lemma length_bytes_of_string: "length (bytes_of_string s) = length s"
  by (simp add: bytes_of_string_def)

lemma Encrypt_success:
  assumes "length key = 32" and "16 \<le> length rnd"
  shows "Encrypt plainText key rnd =
           (EncodeToString (take 16 rnd @
              cfb_encrypt (aes_encrypt_block (bytes_of_string key)) (take 16 rnd) (bytes_of_string plainText)),
            None)"
  using assms by (simp add: Encrypt_def NewCipher_def ReadFull_def BlockSize_def length_bytes_of_string)

lemma find_Some_iff_ex: "(\<exists>u. find P xs = Some u) \<longleftrightarrow> (\<exists>u \<in> set xs. P u)"
  by (induction xs) auto

lemma FindOne_found:
  assumes "reachable c" and "u \<in> set (docs c)" and "EmailHash u = h"
  shows "\<exists>v. FindOne_email_hash c h = Inr v"
proof -
  from assms have "\<exists>v. find (\<lambda>u. EmailHash u = h) (docs c) = Some v"
    unfolding find_Some_iff_ex by blast
  with assms(1) show ?thesis by (auto simp: FindOne_email_hash_def)
qed

lemma Register_conflict:
  assumes "reachable collection" and "u \<in> set (docs collection)" and "EmailHash u = rr_Email req"
  shows "Register env cfg (Some req) collection
           = (http_Error ''User already exists'' 409, collection)"
proof -
  from FindOne_found [OF assms] obtain v where "FindOne_email_hash collection (rr_Email req) = Inr v" ..
  then show ?thesis by (simp add: Register_def StatusConflict_def)
qed

lemma Register_success:
  assumes "reachable c"
    and "\<forall>u \<in> set (docs c). EmailHash u \<noteq> rr_Email req"
    and "bcrypt_GenerateFromPassword env (rr_Password req) = Inr h"
    and "length (EncryptionKey cfg) = 32" and "16 \<le> length (rand_Reader env)"
    and "primitive_NewObjectID env \<notin> set (map ID (docs c))"
  shows "Register env cfg (Some req) c =
           (Message ''User registered successfully'',
            c\<lparr>docs := docs c @
               [\<lparr>ID = primitive_NewObjectID env, EmailHash = rr_Email req,
                 Email = fst (Encrypt (rr_Email req) (EncryptionKey cfg) (rand_Reader env)),
                 Password = h,
                 Role = (if rr_Role req = ''admin'' then ''admin'' else ''user''),
                 CreatedAt = time_Now env, UpdatedAt = time_Now env\<rparr>]\<rparr>)"
proof -
  have nf: "find (\<lambda>u. EmailHash u = rr_Email req) (docs c) = None"
    using assms(2) by (simp add: find_None_iff)
  have f: "FindOne_email_hash c (rr_Email req) = Inl ErrNoDocuments"
    using assms(1) nf by (simp add: FindOne_email_hash_def)
  obtain ct where e: "Encrypt (rr_Email req) (EncryptionKey cfg) (rand_Reader env) = (ct, None)"
    using Encrypt_success [OF assms(4,5)] by blast
  show ?thesis
    using assms(1,3,6) by (simp add: Register_def f e InsertOne_def Let_def)
qed

lemma AdminRegister_success:
  assumes "reachable c"
    and "\<forall>u \<in> set (docs c). EmailHash u \<noteq> ar_Email req"
    and "bcrypt_GenerateFromPassword env (ar_Password req) = Inr h"
    and "length (EncryptionKey cfg) = 32" and "16 \<le> length (rand_Reader env)"
    and "primitive_NewObjectID env \<notin> set (map ID (docs c))"
  shows "AdminRegister env cfg (Some req) c =
           (Message ''Admin registered successfully'',
            c\<lparr>docs := docs c @
               [\<lparr>ID = primitive_NewObjectID env, EmailHash = ar_Email req,
                 Email = fst (Encrypt (ar_Email req) (EncryptionKey cfg) (rand_Reader env)),
                 Password = h, Role = ''admin'',
                 CreatedAt = time_Now env, UpdatedAt = time_Now env\<rparr>]\<rparr>)"
proof -
  have nf: "find (\<lambda>u. EmailHash u = ar_Email req) (docs c) = None"
    using assms(2) by (simp add: find_None_iff)
  have f: "FindOne_email_hash c (ar_Email req) = Inl ErrNoDocuments"
    using assms(1) nf by (simp add: FindOne_email_hash_def)
  obtain ct where e: "Encrypt (ar_Email req) (EncryptionKey cfg) (rand_Reader env) = (ct, None)"
    using Encrypt_success [OF assms(4,5)] by blast
  show ?thesis
    using assms(1,3,6) by (simp add: AdminRegister_def f e InsertOne_def Let_def)
qed

lemma Register_Message_inserted:
  assumes "Register env cfg body c = (Message m, c')"
  shows "\<exists>req ct h. body = Some req \<and> reachable c
            \<and> c' = c\<lparr>docs := docs c @
                 [\<lparr>ID = primitive_NewObjectID env, EmailHash = rr_Email req, Email = ct, Password = h,
                   Role = (if rr_Role req = ''admin'' then ''admin'' else ''user''),
                   CreatedAt = time_Now env, UpdatedAt = time_Now env\<rparr>]\<rparr>"
  using assms
  by (auto simp: Register_def InsertOne_def Let_def
           split: option.splits sum.splits if_splits prod.splits)

lemma AdminRegister_Message_inserted:
  assumes "AdminRegister env cfg body c = (Message m, c')"
  shows "\<exists>req ct h. body = Some req \<and> reachable c
            \<and> c' = c\<lparr>docs := docs c @
                 [\<lparr>ID = primitive_NewObjectID env, EmailHash = ar_Email req, Email = ct, Password = h,
                   Role = ''admin'', CreatedAt = time_Now env, UpdatedAt = time_Now env\<rparr>]\<rparr>"
  using assms
  by (auto simp: AdminRegister_def InsertOne_def Let_def
           split: option.splits sum.splits if_splits prod.splits)

lemma Register_env0_admin:
  "Register env0 cfg0 (Some \<lparr>rr_Email = ''a@x.com'', rr_Password = ''pw123456'', rr_Role = ''admin''\<rparr>) empty_users =
     (Message ''User registered successfully'',
      \<lparr>docs = [\<lparr>ID = ''507f1f77bcf86cd799439011'', EmailHash = ''a@x.com'',
                Email = fst (Encrypt ''a@x.com'' ''your-32-byte-encryption-key-here''
                               [0, 1, 2, 3, 4, 5, 6, 7, 8, 9, 10, 11, 12, 13, 14, 15]),
                Password = ''$2a$10$pw123456'', Role = ''admin'',
                CreatedAt = 1700000000, UpdatedAt = 1700000000\<rparr>],
       reachable = True\<rparr>)"
  using Register_success [of empty_users "\<lparr>rr_Email = ''a@x.com'', rr_Password = ''pw123456'', rr_Role = ''admin''\<rparr>" env0 "''$2a$10$pw123456''" cfg0]
  by (simp add: env0_def cfg0_def empty_users_def)

lemma Register_env0_plain:
  "Register env0 cfg0 (Some \<lparr>rr_Email = ''a@x.com'', rr_Password = ''pw123456'', rr_Role = ''''\<rparr>) empty_users =
     (Message ''User registered successfully'', users0)"
  using Register_success [of empty_users "\<lparr>rr_Email = ''a@x.com'', rr_Password = ''pw123456'', rr_Role = ''''\<rparr>" env0 "''$2a$10$pw123456''" cfg0]
  by (simp add: env0_def cfg0_def empty_users_def users0_def user0_def)

lemma FindOne_users0: "FindOne_email_hash users0 ''a@x.com'' = Inr user0"
  by (simp add: FindOne_email_hash_def users0_def user0_def)




lemma TrimPrefix_append: "TrimPrefix (p @ t) p = t"
  by (simp add: TrimPrefix_def has_prefix_def)

lemma TrimPrefix_absent: "\<not> has_prefix t p \<Longrightarrow> TrimPrefix t p = t"
  by (simp add: TrimPrefix_def)



section \<open>Facts about the cipher: lengths and round trips\<close>


lemma string_of_bytes_of_string: "string_of_bytes (bytes_of_string s) = s"
proof -
  have "char_of (unat (word_of_nat (of_char c) :: byte)) = c" for c :: char
    by (simp add: unat_of_nat)
  then show ?thesis
    by (simp add: string_of_bytes_def bytes_of_string_def map_idI)
qed

lemma length_xor_bytes: "length (xor_bytes xs ys) = min (length xs) (length ys)"
  by (simp add: xor_bytes_def)

lemma xor_bytes_cancel:
  "length xs \<le> length ks \<Longrightarrow> xor_bytes (xor_bytes xs ks) ks = xs"
proof (induction xs arbitrary: ks)
  case Nil
  then show ?case by (simp add: xor_bytes_def)
next
  case (Cons x xs)
  then obtain k ks' where "ks = k # ks'" by (cases ks) auto
  with Cons show ?case by (simp add: xor_bytes_def xor.assoc)
qed

lemma cfb_encrypt_unfold:
  "xs \<noteq> [] \<Longrightarrow>
   cfb_encrypt enc prev xs =
     xor_bytes (take 16 xs) (enc prev) @ cfb_encrypt enc (xor_bytes (take 16 xs) (enc prev)) (drop 16 xs)"
  by (cases xs) (simp_all add: Let_def)

lemma cfb_decrypt_unfold:
  "xs \<noteq> [] \<Longrightarrow>
   cfb_decrypt enc prev xs =
     xor_bytes (take 16 xs) (enc prev) @ cfb_decrypt enc (take 16 xs) (drop 16 xs)"
  by (cases xs) (simp_all add: Let_def)

lemma cfb_roundtrip:
  assumes E: "\<And>b. length b = 16 \<Longrightarrow> length (enc b) = 16"
  shows "length iv = 16 \<Longrightarrow> cfb_decrypt enc iv (cfb_encrypt enc iv pt) = pt"
proof (induction pt arbitrary: iv rule: length_induct)
  case (1 pt)
  show ?case
  proof (cases "pt = []")
    case True
    then show ?thesis by simp
  next
    case False
    define ct where "ct = xor_bytes (take 16 pt) (enc iv)"
    have ks: "length (enc iv) = 16" using E "1.prems" by simp
    have lct: "length ct = min 16 (length pt)"
      by (simp add: ct_def length_xor_bytes ks)
    have ctne: "ct \<noteq> []" using lct False by (cases pt) auto
    have undo: "xor_bytes ct (enc iv) = take 16 pt"
      unfolding ct_def by (rule xor_bytes_cancel) (simp add: ks)
    have enc_eq: "cfb_encrypt enc iv pt = ct @ cfb_encrypt enc ct (drop 16 pt)"
      using False by (simp add: cfb_encrypt_unfold ct_def)
    show ?thesis
    proof (cases "length pt \<le> 16")
      case True
      then have "drop 16 pt = []" by simp
      then have e: "cfb_encrypt enc iv pt = ct" using enc_eq by simp
      have "take 16 ct = ct" and "drop 16 ct = []" using lct by simp_all
      then have "cfb_decrypt enc iv ct = xor_bytes ct (enc iv)"
        using ctne by (simp add: cfb_decrypt_unfold)
      with e undo True show ?thesis by simp
    next
      case False
      then have l16: "length ct = 16" using lct by simp
      let ?rest = "cfb_encrypt enc ct (drop 16 pt)"
      have "take 16 (ct @ ?rest) = ct" and "drop 16 (ct @ ?rest) = ?rest"
        using l16 by simp_all
      then have "cfb_decrypt enc iv (ct @ ?rest) = xor_bytes ct (enc iv) @ cfb_decrypt enc ct ?rest"
        using ctne by (simp add: cfb_decrypt_unfold)
      moreover have "cfb_decrypt enc ct ?rest = drop 16 pt"
        using "1.IH" False l16 by simp
      ultimately show ?thesis using enc_eq undo by simp
    qed
  qed
qed



lemma chunks_unfold: "0 < n \<Longrightarrow> xs \<noteq> [] \<Longrightarrow> chunks n xs = take n xs # chunks n (drop n xs)"
  by (cases xs; cases n) simp_all

lemma chunks_lengths:
  "0 < n \<Longrightarrow> n dvd length xs \<Longrightarrow> \<forall>w \<in> set (chunks n xs). length w = n"
proof (induction xs rule: length_induct)
  case (1 xs)
  show ?case
  proof (cases "xs = []")
    case True
    then show ?thesis by simp
  next
    case False
    with "1.prems" have ge: "n \<le> length xs" by (auto dest: dvd_imp_le)
    have d: "n dvd length (drop n xs)" using "1.prems" ge by (simp add: dvd_diff_nat)
    have "length (drop n xs) < length xs" using False "1.prems" by simp
    with "1.IH" "1.prems" d have ih: "\<forall>w \<in> set (chunks n (drop n xs)). length w = n" by blast
    have eq: "chunks n xs = take n xs # chunks n (drop n xs)"
      using "1.prems"(1) False by (rule chunks_unfold)
    have l: "length (take n xs) = n" using ge by simp
    have "\<forall>w \<in> set (take n xs # chunks n (drop n xs)). length w = n"
    proof (intro ballI)
      fix w assume "w \<in> set (take n xs # chunks n (drop n xs))"
      then have "w = take n xs \<or> w \<in> set (chunks n (drop n xs))" by simp
      then show "length w = n" using l ih by blast
    qed
    then show ?thesis by (simp only: eq)
  qed
qed

lemma length_chunks:
  "0 < n \<Longrightarrow> n dvd length xs \<Longrightarrow> length (chunks n xs) = length xs div n"
proof (induction xs rule: length_induct)
  case (1 xs)
  show ?case
  proof (cases "xs = []")
    case True
    then show ?thesis by simp
  next
    case False
    with "1.prems" have ge: "n \<le> length xs" by (auto dest: dvd_imp_le)
    have d: "n dvd length (drop n xs)" using "1.prems" ge by (simp add: dvd_diff_nat)
    have "length (drop n xs) < length xs" using False "1.prems" by simp
    with "1.IH" "1.prems" d have ih: "length (chunks n (drop n xs)) = length (drop n xs) div n" by blast
    have eq: "chunks n xs = take n xs # chunks n (drop n xs)"
      using "1.prems"(1) False by (rule chunks_unfold)
    have "length (take n xs # chunks n (drop n xs)) = length xs div n"
      using ih ge "1.prems"(1) by (simp add: le_div_geq)
    then show ?thesis by (simp only: eq)
  qed
qed


lemma chunks_list_all:
  "0 < n \<Longrightarrow> n dvd length xs \<Longrightarrow> list_all (\<lambda>w. length w = n) (chunks n xs)"
  using chunks_lengths [of n xs] by (simp add: list_all_iff)

lemma length_concat_fixed:
  "list_all (\<lambda>w. length w = k) ws \<Longrightarrow> length (concat ws) = k * length ws"
  by (induction ws) simp_all

lemma length_rot_word: "length (rot_word w) = length w"
  by (cases w) (simp_all add: rot_word_def)

lemma list_all_nth: "list_all P xs \<Longrightarrow> i < length xs \<Longrightarrow> P (xs ! i)"
  by (simp add: list_all_length)

lemma expand_words_inv:
  assumes "0 < nk"
  shows "nk \<le> length ws \<Longrightarrow> list_all (\<lambda>w. length w = 4) ws \<Longrightarrow>
         list_all (\<lambda>w. length w = 4) (expand_words nk n ws)
         \<and> length (expand_words nk n ws) = length ws + n"
proof (induction n arbitrary: ws)
  case 0
  then show ?case by simp
next
  case (Suc n)
  let ?i = "length ws"
  let ?prev = "ws ! (?i - 1)"
  let ?temp = "(if ?i mod nk = 0 then xor_bytes (map sub_byte (rot_word ?prev)) [rcon (?i div nk), 0, 0, 0]
                  else if 6 < nk \<and> ?i mod nk = 4 then map sub_byte ?prev
                  else ?prev)"
  let ?new = "xor_bytes (ws ! (?i - nk)) ?temp"
  have pos: "0 < ?i" using assms Suc.prems(1) by (cases ws) auto
  have lp: "length ?prev = 4"
    using list_all_nth [OF Suc.prems(2), of "?i - 1"] pos by simp
  have lo: "length (ws ! (?i - nk)) = 4"
    using list_all_nth [OF Suc.prems(2), of "?i - nk"] pos assms by simp
  have lt: "length ?temp = 4"
    using lp by (simp add: length_xor_bytes length_rot_word)
  have ln: "length ?new = 4"
    by (simp only: length_xor_bytes lo lt)
  have a: "list_all (\<lambda>w. length w = 4) (ws @ [?new])"
    using Suc.prems(2) ln by simp
  have b: "nk \<le> length (ws @ [?new])" using Suc.prems(1) by simp
  have e: "expand_words nk (Suc n) ws = expand_words nk n (ws @ [?new])"
    by (simp add: Let_def)
  from Suc.IH [OF b a] show ?case by (simp only: e) simp
qed

lemma key_expansion_32:
  assumes "length key = 32"
  shows "list_all (\<lambda>k. length k = 16) (key_expansion key) \<and> length (key_expansion key) = 15"
proof -
  have c4: "list_all (\<lambda>w. length w = 4) (chunks 4 key)" and l4: "length (chunks 4 key) = 8"
    using assms by (simp_all add: chunks_list_all length_chunks)
  let ?ws = "expand_words 8 52 (chunks 4 key)"
  have inv: "list_all (\<lambda>w. length w = 4) ?ws \<and> length ?ws = 60"
    using expand_words_inv [of 8 "chunks 4 key" 52] c4 l4 by simp
  then have lc: "length (concat ?ws) = 240"
    using length_concat_fixed [of 4 ?ws] by simp
  have ke: "key_expansion key = chunks 16 (concat ?ws)"
    using assms by (simp add: key_expansion_def Let_def)
  show ?thesis
    using lc by (simp add: ke chunks_list_all length_chunks)
qed

lemma length_mix_column: "length col = 4 \<Longrightarrow> length (mix_column col) = 4"
  by (auto simp: mix_column_def split: list.splits)

lemma length_mix_columns: "length st = 16 \<Longrightarrow> length (mix_columns st) = 16"
  by (simp add: mix_columns_def length_mix_column)

lemma length_shift_rows: "length (shift_rows st) = 16"
  by (simp add: shift_rows_def)

lemma length_sub_bytes: "length (sub_bytes st) = length st"
  by (simp add: sub_bytes_def)

lemma length_aes_rounds:
  "list_all (\<lambda>k. length k = 16) ks \<Longrightarrow> length st = 16 \<Longrightarrow> length (aes_rounds ks st) = 16"
  by (induction ks st rule: aes_rounds.induct)
     (simp_all add: length_xor_bytes length_shift_rows length_mix_columns)

lemma length_aes_encrypt_block:
  assumes "length key = 32" and "length blk = 16"
  shows "length (aes_encrypt_block key blk) = 16"
proof -
  from key_expansion_32 [OF assms(1)]
  obtain k0 ks where ke: "key_expansion key = k0 # ks" and all: "list_all (\<lambda>k. length k = 16) (k0 # ks)"
    by (cases "key_expansion key") auto
  have "length (xor_bytes blk k0) = 16"
    using all assms(2) by (simp add: length_xor_bytes)
  then have "length (aes_rounds ks (xor_bytes blk k0)) = 16"
    using all by (simp add: length_aes_rounds)
  then show ?thesis by (simp add: aes_encrypt_block_def ke)
qed




lemma distinct_encodeStd: "distinct encodeStd"
  by (simp add: encodeStd_def)

lemma length_encodeStd: "length encodeStd = 64"
  by (simp add: encodeStd_def)

lemma index_of_nth: "distinct xs \<Longrightarrow> n < length xs \<Longrightarrow> index_of (xs ! n) xs = Some n"
proof (induction xs arbitrary: n)
  case Nil
  then show ?case by simp
next
  case (Cons x xs)
  show ?case
  proof (cases n)
    case 0
    then show ?thesis by simp
  next
    case (Suc m)
    with Cons.prems have "xs ! m \<noteq> x" by auto
    with Cons Suc show ?thesis by auto
  qed
qed

lemma b64_index_char: "n < 64 \<Longrightarrow> b64_index (b64_char n) = Some n"
  by (simp add: b64_index_def b64_char_def index_of_nth distinct_encodeStd length_encodeStd)

lemma b64_char_mem: "n < 64 \<Longrightarrow> b64_char n \<in> set encodeStd"
  by (simp add: b64_char_def length_encodeStd)

lemma special_not_in_encodeStd:
  "CHR ''='' \<notin> set encodeStd" "CHR 0x0D \<notin> set encodeStd" "CHR 0x0A \<notin> set encodeStd"
  by (simp_all add: encodeStd_def)

lemma b64_char_plain:
  assumes "n < 64"
  shows "b64_char n \<noteq> CHR ''=''" and "b64_char n \<noteq> CHR 0x0D" and "b64_char n \<noteq> CHR 0x0A"
  using b64_char_mem [OF assms] special_not_in_encodeStd by metis+

lemma sextet_bounds:
  fixes a b c :: nat
  shows "a < 256 \<Longrightarrow> a div 4 < 64"
    and "b < 256 \<Longrightarrow> a mod 4 * 16 + b div 16 < 64"
    and "c < 256 \<Longrightarrow> b mod 16 * 4 + c div 64 < 64"
    and "c mod 64 < 64"
    and "a mod 4 * 16 < 64"
    and "b mod 16 * 4 < 64"
  by simp_all

lemma j1:
  fixes a b :: nat
  assumes "b < 256"
  shows "a div 4 * 4 + (a mod 4 * 16 + b div 16) div 16 = a"
proof -
  have "b div 16 < 16" using assms by simp
  then have "(a mod 4 * 16 + b div 16) div 16 = a mod 4" by simp
  then show ?thesis by simp
qed

lemma j2:
  fixes a b c :: nat
  assumes "b < 256" "c < 256"
  shows "(a mod 4 * 16 + b div 16) mod 16 * 16 + (b mod 16 * 4 + c div 64) div 4 = b"
proof -
  have "b div 16 < 16" using assms by simp
  then have x: "(a mod 4 * 16 + b div 16) mod 16 = b div 16" by simp
  have "c div 64 < 4" using assms by simp
  then have y: "(b mod 16 * 4 + c div 64) div 4 = b mod 16" by simp
  show ?thesis using x y by simp
qed

lemma j3:
  fixes b c :: nat
  assumes "c < 256"
  shows "(b mod 16 * 4 + c div 64) mod 4 * 64 + c mod 64 = c"
proof -
  have "c div 64 < 4" using assms by simp
  then have "(b mod 16 * 4 + c div 64) mod 4 = c div 64" by simp
  then show ?thesis by simp
qed

lemma j4:
  fixes a :: nat
  shows "a div 4 * 4 + (a mod 4 * 16) div 16 = a"
  by simp

lemma j5:
  fixes a b :: nat
  assumes "b < 256"
  shows "(a mod 4 * 16 + b div 16) mod 16 * 16 + (b mod 16 * 4) div 4 = b"
proof -
  have "b div 16 < 16" using assms by simp
  then have x: "(a mod 4 * 16 + b div 16) mod 16 = b div 16" by simp
  show ?thesis using x by simp
qed

lemma unat_byte_bound: "unat (b :: byte) < 256"
  using unsigned_less [of b, where 'a = nat] by simp

lemma word_of_unat_byte: "(word_of_nat (unat (b :: byte)) :: byte) = b"
  by simp

lemma filter_EncodeToString:
  "filter (\<lambda>c. c \<noteq> CHR 0x0D \<and> c \<noteq> CHR 0x0A) (EncodeToString bs) = EncodeToString bs"
  by (induction bs rule: EncodeToString.induct)
     (simp_all add: b64_char_plain sextet_bounds unat_byte_bound)

lemma decode_step_1:
  assumes "b64_index ca = Some x" and "b64_index cb = Some y"
  shows "decode_quanta [ca, cb, CHR ''='', CHR ''=''] = Some [word_of_nat (x * 4 + y div 16)]"
  using assms by simp

lemma decode_step_2:
  assumes "b64_index ca = Some x" and "b64_index cb = Some y" and "b64_index cc = Some z"
    and "cc \<noteq> CHR ''=''"
  shows "decode_quanta [ca, cb, cc, CHR ''='']
         = Some [word_of_nat (x * 4 + y div 16), word_of_nat (y mod 16 * 16 + z div 4)]"
  using assms by simp

lemma decode_step_3:
  assumes "b64_index ca = Some x" and "b64_index cb = Some y" and "b64_index cc = Some z"
    and "b64_index cd = Some w" and "cc \<noteq> CHR ''=''" and "cd \<noteq> CHR ''=''"
  shows "decode_quanta (ca # cb # cc # cd # rest)
         = map_option ((@) [word_of_nat (x * 4 + y div 16), word_of_nat (y mod 16 * 16 + z div 4),
                            word_of_nat (z mod 4 * 64 + w)]) (decode_quanta rest)"
  using assms by simp

lemma decode_quantum_1:
  fixes a :: byte
  shows "decode_quanta [b64_char (unat a div 4), b64_char (unat a mod 4 * 16), CHR ''='', CHR ''='']
         = Some [a]"
proof -
  have i1: "b64_index (b64_char (unat a div 4)) = Some (unat a div 4)"
    and i2: "b64_index (b64_char (unat a mod 4 * 16)) = Some (unat a mod 4 * 16)"
    by (simp_all add: b64_index_char sextet_bounds unat_byte_bound)
  have v: "(word_of_nat (unat a div 4 * 4 + unat a mod 4 * 16 div 16) :: byte) = a"
    by (simp only: j4 word_of_unat_byte)
  show ?thesis
    by (simp only: decode_step_1 [OF i1 i2] v)
qed

lemma decode_quantum_2:
  fixes a b :: byte
  shows "decode_quanta [b64_char (unat a div 4), b64_char (unat a mod 4 * 16 + unat b div 16),
                        b64_char (unat b mod 16 * 4), CHR ''='']
         = Some [a, b]"
proof -
  have i1: "b64_index (b64_char (unat a div 4)) = Some (unat a div 4)"
    and i2: "b64_index (b64_char (unat a mod 4 * 16 + unat b div 16)) = Some (unat a mod 4 * 16 + unat b div 16)"
    and i3: "b64_index (b64_char (unat b mod 16 * 4)) = Some (unat b mod 16 * 4)"
    by (simp_all add: b64_index_char sextet_bounds unat_byte_bound)
  have n3: "b64_char (unat b mod 16 * 4) \<noteq> CHR ''=''"
    by (rule b64_char_plain) (simp add: sextet_bounds)
  have v1: "(word_of_nat (unat a div 4 * 4 + (unat a mod 4 * 16 + unat b div 16) div 16) :: byte) = a"
    by (simp only: j1 [OF unat_byte_bound] word_of_unat_byte)
  have v2: "(word_of_nat ((unat a mod 4 * 16 + unat b div 16) mod 16 * 16 + unat b mod 16 * 4 div 4) :: byte) = b"
    by (simp only: j5 [OF unat_byte_bound] word_of_unat_byte)
  show ?thesis
    by (simp only: decode_step_2 [OF i1 i2 i3 n3] v1 v2)
qed

lemma decode_quantum_3:
  fixes a b c :: byte
  shows "decode_quanta (b64_char (unat a div 4) # b64_char (unat a mod 4 * 16 + unat b div 16) #
                        b64_char (unat b mod 16 * 4 + unat c div 64) # b64_char (unat c mod 64) # rest)
         = map_option (\<lambda>r. [a, b, c] @ r) (decode_quanta rest)"
proof -
  have i1: "b64_index (b64_char (unat a div 4)) = Some (unat a div 4)"
    and i2: "b64_index (b64_char (unat a mod 4 * 16 + unat b div 16)) = Some (unat a mod 4 * 16 + unat b div 16)"
    and i3: "b64_index (b64_char (unat b mod 16 * 4 + unat c div 64)) = Some (unat b mod 16 * 4 + unat c div 64)"
    and i4: "b64_index (b64_char (unat c mod 64)) = Some (unat c mod 64)"
    by (simp_all add: b64_index_char sextet_bounds unat_byte_bound)
  have n3: "b64_char (unat b mod 16 * 4 + unat c div 64) \<noteq> CHR ''=''"
    and n4: "b64_char (unat c mod 64) \<noteq> CHR ''=''"
    by (rule b64_char_plain, simp add: sextet_bounds unat_byte_bound)+
  have v1: "(word_of_nat (unat a div 4 * 4 + (unat a mod 4 * 16 + unat b div 16) div 16) :: byte) = a"
    by (simp only: j1 [OF unat_byte_bound] word_of_unat_byte)
  have v2: "(word_of_nat ((unat a mod 4 * 16 + unat b div 16) mod 16 * 16 + (unat b mod 16 * 4 + unat c div 64) div 4) :: byte) = b"
    by (simp only: j2 [OF unat_byte_bound unat_byte_bound] word_of_unat_byte)
  have v3: "(word_of_nat ((unat b mod 16 * 4 + unat c div 64) mod 4 * 64 + unat c mod 64) :: byte) = c"
    by (simp only: j3 [OF unat_byte_bound] word_of_unat_byte)
  show ?thesis
    by (simp only: decode_step_3 [OF i1 i2 i3 i4 n3 n4] v1 v2 v3)
qed

lemma decode_quanta_EncodeToString: "decode_quanta (EncodeToString bs) = Some bs"
proof (induction bs rule: EncodeToString.induct)
  case 1
  then show ?case by simp
next
  case (2 a)
  show ?case by (simp only: EncodeToString.simps decode_quantum_1)
next
  case (3 a b)
  show ?case by (simp only: EncodeToString.simps decode_quantum_2)
next
  case (4 a b c rest)
  then show ?case by (simp only: EncodeToString.simps append.simps decode_quantum_3) simp
qed

lemma DecodeString_EncodeToString: "DecodeString (EncodeToString bs) = Some bs"
  by (simp add: DecodeString_def filter_EncodeToString decode_quanta_EncodeToString)

lemma Decrypt_Encrypt:
  assumes "length key = 32" and "16 \<le> length rnd"
  shows "Decrypt (fst (Encrypt plainText key rnd)) key = (plainText, None)"
proof -
  let ?k = "bytes_of_string key"
  let ?iv = "take 16 rnd"
  let ?ct = "cfb_encrypt (aes_encrypt_block ?k) ?iv (bytes_of_string plainText)"
  have lk: "length ?k = 32" using assms(1) by (simp add: length_bytes_of_string)
  have liv: "length ?iv = 16" using assms(2) by simp
  have rt: "cfb_decrypt (aes_encrypt_block ?k) ?iv ?ct = bytes_of_string plainText"
    using liv by (rule cfb_roundtrip [rotated]) (rule length_aes_encrypt_block [OF lk])
  have tk: "take 16 (?iv @ ?ct) = ?iv" and dr: "drop 16 (?iv @ ?ct) = ?ct"
    using liv by simp_all
  have "Decrypt (EncodeToString (?iv @ ?ct)) key = (plainText, None)"
    using assms(1) lk liv
    by (simp add: Decrypt_def DecodeString_EncodeToString NewCipher_def BlockSize_def
                  rt string_of_bytes_of_string)
  then show ?thesis
    by (simp add: Encrypt_success [OF assms])
qed


section \<open>The length of an email hash\<close>

lemma length_compress_round: "length (compress_round st kw) = length st"
  by (induction st kw rule: compress_round.induct) (simp_all add: Let_def)

lemma length_foldl_compress_round: "length (foldl compress_round st kws) = length st"
  by (induction kws arbitrary: st) (simp_all add: length_compress_round)

lemma length_sha256_block: "length (sha256_block hs blk) = length hs"
  by (simp add: sha256_block_def Let_def length_foldl_compress_round)

lemma length_foldl_sha256_block: "length (foldl sha256_block hs blks) = length hs"
  by (induction blks arbitrary: hs) (simp_all add: length_sha256_block)

lemma length_be_bytes32: "length (be_bytes32 w) = 4"
  by (simp add: be_bytes32_def)

lemma length_concat_map_fixed:
  "(\<And>x. length (f x) = k) \<Longrightarrow> length (concat (map f xs)) = k * length xs"
  by (induction xs) simp_all

lemma length_Sum256: "length (Sum256 msg) = 32"
  by (simp add: Sum256_def length_concat_map_fixed [where k = 4] length_be_bytes32
                length_foldl_sha256_block sha256_init_def)

lemma length_EncodeToString: "length (EncodeToString bs) = 4 * ((length bs + 2) div 3)"
proof (induction bs rule: EncodeToString.induct)
  case (4 a b c rest)
  have "(length rest + 5) div 3 = Suc ((length rest + 2) div 3)" by presburger
  with 4 show ?case by (simp add: add.commute)
qed simp_all

lemma length_HashEmail: "length (HashEmail email) = 44"
  by (simp add: HashEmail_def length_EncodeToString length_Sum256)

lemma HashEmail_neq: "length email \<noteq> 44 \<Longrightarrow> HashEmail email \<noteq> email"
  using length_HashEmail [of email] by auto

section \<open>Registration: the persisted role (C1) and duplicate emails (C8)\<close>

text \<open>
  Claim C1, as the code has it: a registration through \<open>Register\<close> that succeeds appends
  one record whose role is \<open>admin\<close> when the request's optional role field is \<open>admin\<close> and
  \<open>user\<close> otherwise; a registration through \<open>AdminRegister\<close> that succeeds appends one
  record whose role is \<open>admin\<close>.
\<close>

theorem C1_persisted_role:
  "(Register env cfg body c = (Message m, c') \<longrightarrow>
      (\<exists>req u. body = Some req \<and> docs c' = docs c @ [u]
          \<and> Role u = (if rr_Role req = ''admin'' then ''admin'' else ''user'')))
   \<and> (AdminRegister env cfg abody c = (Message m, c') \<longrightarrow>
      (\<exists>req u. abody = Some req \<and> docs c' = docs c @ [u] \<and> Role u = ''admin''))"
proof (intro conjI impI)
  assume "Register env cfg body c = (Message m, c')"
  from Register_Message_inserted [OF this]
  obtain req ct h where "body = Some req"
    and "c' = c\<lparr>docs := docs c @
                 [\<lparr>ID = primitive_NewObjectID env, EmailHash = rr_Email req, Email = ct, Password = h,
                   Role = (if rr_Role req = ''admin'' then ''admin'' else ''user''),
                   CreatedAt = time_Now env, UpdatedAt = time_Now env\<rparr>]\<rparr>"
    by blast
  then show "\<exists>req u. body = Some req \<and> docs c' = docs c @ [u]
          \<and> Role u = (if rr_Role req = ''admin'' then ''admin'' else ''user'')"
    by simp
next
  assume "AdminRegister env cfg abody c = (Message m, c')"
  from AdminRegister_Message_inserted [OF this]
  obtain req ct h where "abody = Some req"
    and "c' = c\<lparr>docs := docs c @
                 [\<lparr>ID = primitive_NewObjectID env, EmailHash = ar_Email req, Email = ct, Password = h,
                   Role = ''admin'', CreatedAt = time_Now env, UpdatedAt = time_Now env\<rparr>]\<rparr>"
    by blast
  then show "\<exists>req u. abody = Some req \<and> docs c' = docs c @ [u] \<and> Role u = ''admin''"
    by simp
qed

text \<open>An instance: a request without a role field is stored with the role \<open>user\<close>.\<close>

theorem C1_persisted_role_witness:
  "Register env0 cfg0 (Some \<lparr>rr_Email = ''a@x.com'', rr_Password = ''pw123456'', rr_Role = ''''\<rparr>) empty_users
     = (Message ''User registered successfully'', users0)
   \<and> (\<exists>req u. Some \<lparr>rr_Email = ''a@x.com'', rr_Password = ''pw123456'', rr_Role = ''''\<rparr> = Some req
          \<and> docs users0 = docs empty_users @ [u]
          \<and> Role u = (if rr_Role req = ''admin'' then ''admin'' else ''user''))"
  using C1_persisted_role [of env0 cfg0
      "Some \<lparr>rr_Email = ''a@x.com'', rr_Password = ''pw123456'', rr_Role = ''''\<rparr>" empty_users
      "''User registered successfully''" users0 None]
    Register_env0_plain
  by simp

text \<open>The claim as the spec words it fails: the regular entry point stores the role
  \<open>admin\<close> for a request whose role field is \<open>admin\<close>.\<close>

theorem C1_self_elevation_counterexample:
  "Register env0 cfg0 (Some \<lparr>rr_Email = ''a@x.com'', rr_Password = ''pw123456'', rr_Role = ''admin''\<rparr>) empty_users
     = (Message ''User registered successfully'',
        \<lparr>docs = [\<lparr>ID = ''507f1f77bcf86cd799439011'', EmailHash = ''a@x.com'',
                  Email = fst (Encrypt ''a@x.com'' ''your-32-byte-encryption-key-here''
                                 [0, 1, 2, 3, 4, 5, 6, 7, 8, 9, 10, 11, 12, 13, 14, 15]),
                  Password = ''$2a$10$pw123456'', Role = ''admin'',
                  CreatedAt = 1700000000, UpdatedAt = 1700000000\<rparr>],
         reachable = True\<rparr>)"
  by (rule Register_env0_admin)

text \<open>
  Claim C8: a registration whose email-lookup-key matches a stored record replies 409
  Conflict and leaves the collection as it was; in particular, after a registration that
  succeeded, every further registration of the same email replies 409.
\<close>

theorem C8_duplicate_registration_conflict:
  "(reachable collection \<and> (\<exists>u \<in> set (docs collection). EmailHash u = rr_Email req) \<longrightarrow>
      Register env cfg (Some req) collection = (http_Error ''User already exists'' 409, collection))
   \<and> (Register env cfg (Some req) collection = (Message m, collection') \<and> rr_Email req2 = rr_Email req \<longrightarrow>
      Register env2 cfg2 (Some req2) collection' = (http_Error ''User already exists'' 409, collection'))"
proof (intro conjI impI)
  assume "reachable collection \<and> (\<exists>u \<in> set (docs collection). EmailHash u = rr_Email req)"
  then show "Register env cfg (Some req) collection = (http_Error ''User already exists'' 409, collection)"
    using Register_conflict by blast
next
  assume a: "Register env cfg (Some req) collection = (Message m, collection') \<and> rr_Email req2 = rr_Email req"
  from Register_Message_inserted [OF a [THEN conjunct1]]
  obtain ct h where r: "reachable collection"
    and c': "collection' = collection\<lparr>docs := docs collection @
                 [\<lparr>ID = primitive_NewObjectID env, EmailHash = rr_Email req, Email = ct, Password = h,
                   Role = (if rr_Role req = ''admin'' then ''admin'' else ''user''),
                   CreatedAt = time_Now env, UpdatedAt = time_Now env\<rparr>]\<rparr>"
    by auto
  define u where "u = \<lparr>ID = primitive_NewObjectID env, EmailHash = rr_Email req, Email = ct, Password = h,
                   Role = (if rr_Role req = ''admin'' then ''admin'' else ''user''),
                   CreatedAt = time_Now env, UpdatedAt = time_Now env\<rparr>"
  have "reachable collection'" and "u \<in> set (docs collection')" and "EmailHash u = rr_Email req2"
    using r c' a by (simp_all add: u_def)
  then show "Register env2 cfg2 (Some req2) collection' = (http_Error ''User already exists'' 409, collection')"
    by (rule Register_conflict)
qed

theorem C8_duplicate_registration_conflict_witness:
  "reachable users0 \<and> user0 \<in> set (docs users0) \<and> EmailHash user0 = ''a@x.com''
   \<and> Register env0 cfg0 (Some \<lparr>rr_Email = ''a@x.com'', rr_Password = ''another'', rr_Role = ''''\<rparr>) users0
        = (http_Error ''User already exists'' 409, users0)"
  using C8_duplicate_registration_conflict [of users0
      "\<lparr>rr_Email = ''a@x.com'', rr_Password = ''another'', rr_Role = ''''\<rparr>" env0 cfg0]
  by (simp add: users0_def user0_def)

section \<open>Admin login: the order of the role check and the password check (C3)\<close>

text \<open>
  Claim C3, as the code has it: in \<open>AdminLogin\<close> the role check comes before the password
  check. When the email matches a stored record whose role is not \<open>admin\<close>, the reply is
  403 Forbidden whatever the password; when the record's role is \<open>admin\<close> and the password
  does not match the stored hash, the reply is 401 Unauthorized.
\<close>

theorem C3_admin_login_order:
  assumes "FindOne_email_hash collection (al_Email req) = Inr user"
  shows "(Role user \<noteq> ''admin'' \<longrightarrow>
            AdminLogin env cfg (Some req) collection = http_Error ''Access denied: Admin only'' 403)
       \<and> (Role user = ''admin'' \<and> bcrypt_CompareHashAndPassword env (Password user) (al_Password req) \<noteq> None \<longrightarrow>
            AdminLogin env cfg (Some req) collection = http_Error ''Invalid credentials'' 401)"
  using assms
  by (auto simp: AdminLogin_def StatusForbidden_def StatusUnauthorized_def split: option.splits)

theorem C3_admin_login_order_witness:
  "FindOne_email_hash users0 (al_Email \<lparr>al_Email = ''a@x.com'', al_Password = ''wrong-password''\<rparr>) = Inr user0
   \<and> Role user0 \<noteq> ''admin''
   \<and> AdminLogin env0 cfg0 (Some \<lparr>al_Email = ''a@x.com'', al_Password = ''wrong-password''\<rparr>) users0
        = http_Error ''Access denied: Admin only'' 403"
  using C3_admin_login_order [of users0 "\<lparr>al_Email = ''a@x.com'', al_Password = ''wrong-password''\<rparr>" user0 env0 cfg0]
  by (simp add: FindOne_users0) (simp add: user0_def)

text \<open>The claim as the spec words it fails: a stored record with the role \<open>user\<close> and a
  password that does not match give 403 Forbidden, not 401.\<close>

theorem C3_role_before_password_counterexample:
  "FindOne_email_hash users0 ''a@x.com'' = Inr user0
   \<and> bcrypt_CompareHashAndPassword env0 (Password user0) ''wrong-password'' \<noteq> None
   \<and> AdminLogin env0 cfg0 (Some \<lparr>al_Email = ''a@x.com'', al_Password = ''wrong-password''\<rparr>) users0
       = http_Error ''Access denied: Admin only'' 403"
  by (simp add: AdminLogin_def FindOne_users0 StatusForbidden_def)
     (simp add: env0_def user0_def)

section \<open>The access-control gate (C6, C10)\<close>




text \<open>
  Claim C10: the gate does not require the \<open>Bearer\<close> prefix. For a non-empty token string
  \<open>t\<close> that does not itself start with the prefix, both gates treat the header \<open>t\<close> as they
  treat the header \<open>Bearer t\<close>: the same reply when the token is rejected, and otherwise the
  same claims put into the context of the request handed on (whose header is the only
  difference).
\<close>

theorem C10_bearer_prefix_optional:
  assumes "t \<noteq> ''''" and "\<not> has_prefix t ''Bearer ''"
  shows "JWTAuthMiddleware env cfg (\<lambda>r'. next (r'\<lparr>Authorization := ''Bearer '' @ t\<rparr>)) (r\<lparr>Authorization := t\<rparr>) s
           = JWTAuthMiddleware env cfg next (r\<lparr>Authorization := ''Bearer '' @ t\<rparr>) s
       \<and> svc_JWTAuthMiddleware env cfg (\<lambda>r'. next (r'\<lparr>Authorization := ''Bearer '' @ t\<rparr>)) (r\<lparr>Authorization := t\<rparr>) s
           = svc_JWTAuthMiddleware env cfg next (r\<lparr>Authorization := ''Bearer '' @ t\<rparr>) s"
proof -
  have a: "TrimPrefix (''Bearer '' @ t) ''Bearer '' = t" by (rule TrimPrefix_append)
  have b: "TrimPrefix t ''Bearer '' = t" using assms(2) by (rule TrimPrefix_absent)
  show ?thesis
    using assms(1) a b
    by (cases r) (simp add: JWTAuthMiddleware_def svc_JWTAuthMiddleware_def Let_def split: sum.splits)
qed

theorem C10_bearer_prefix_optional_witness:
  "''eyJ.user.sig'' \<noteq> '''' \<and> \<not> has_prefix ''eyJ.user.sig'' ''Bearer ''
   \<and> JWTAuthMiddleware env0 cfg0 (\<lambda>r'. ok_handler (r'\<lparr>Authorization := ''Bearer '' @ ''eyJ.user.sig''\<rparr>))
        \<lparr>Authorization = ''eyJ.user.sig'', ctx = Map.empty\<rparr> ()
       = JWTAuthMiddleware env0 cfg0 ok_handler \<lparr>Authorization = ''Bearer '' @ ''eyJ.user.sig'', ctx = Map.empty\<rparr> ()
   \<and> svc_JWTAuthMiddleware env0 cfg0 (\<lambda>r'. ok_handler (r'\<lparr>Authorization := ''Bearer '' @ ''eyJ.user.sig''\<rparr>))
        \<lparr>Authorization = ''eyJ.user.sig'', ctx = Map.empty\<rparr> ()
       = svc_JWTAuthMiddleware env0 cfg0 ok_handler \<lparr>Authorization = ''Bearer '' @ ''eyJ.user.sig'', ctx = Map.empty\<rparr> ()"
  using C10_bearer_prefix_optional [of "''eyJ.user.sig''" env0 cfg0 ok_handler
      "\<lparr>Authorization = '''', ctx = Map.empty\<rparr>" "()"]
  by (simp add: has_prefix_def)

section \<open>Key length (C7)\<close>

text \<open>
  Claim C7: with a key whose length is not 32 bytes, \<open>Encrypt\<close> and \<open>Decrypt\<close> both return
  the empty string together with an error, whatever the other inputs are.
\<close>

theorem C7_key_length:
  assumes "length key \<noteq> 32"
  shows "Encrypt plainText key rnd = ('''', Some (errors_New ''encryption key must be 32 bytes''))
       \<and> Decrypt encryptedText key = ('''', Some (errors_New ''encryption key must be 32 bytes''))"
  using assms by (simp add: Encrypt_def Decrypt_def)

theorem C7_key_length_witness:
  "length ''short-key'' \<noteq> 32
   \<and> Encrypt ''a@x.com'' ''short-key'' [0, 1, 2, 3, 4, 5, 6, 7, 8, 9, 10, 11, 12, 13, 14, 15]
       = ('''', Some (errors_New ''encryption key must be 32 bytes''))
   \<and> Decrypt ''AAECAwQFBgcICQoLDA0ODw=='' ''short-key''
       = ('''', Some (errors_New ''encryption key must be 32 bytes''))"
  using C7_key_length [of "''short-key''" "''a@x.com''" "[0, 1, 2, 3, 4, 5, 6, 7, 8, 9, 10, 11, 12, 13, 14, 15]" "''AAECAwQFBgcICQoLDA0ODw==''"]
  by simp

end
